theory Spec2Isabelle
  imports Main
begin

section \<open>The Linear session and context module\<close>

text \<open>
  The repository holds two variants of the module \<open>linear\<close> that the extension imports
  (\<open>src/unnamed/part_000\<close> and \<open>src/unnamed/part_001\<close>). Both keep three module-level
  variables, \<open>_secretStorage\<close>, \<open>_storage\<close> and \<open>_client\<close>, and export the same
  operations. They differ in \<open>connect\<close>, \<open>disconnect\<close> and
  \<open>getContextIssueWithDetails\<close>; the functions of the second variant that differ carry
  the suffix \<open>2\<close> here, every other function is the same text in both files.

  Every operation is an \<open>async\<close> function whose body is wrapped in \<open>try/catch\<close>. It is
  modelled as a function from the environment (how the editor, the stores and the remote
  API answer) and the module state to a result and the new state. A thrown exception is
  the \<open>Inl\<close> of a sum; each \<open>catch\<close> is a branch of a case distinction.
\<close>

subsection \<open>Data\<close>

datatype error = TypeError | Error string

datatype credentials = AccessToken string | ApiKey string

datatype client = LinearClient credentials

datatype session = Session (accessToken: string)

datatype user = User string
datatype team = Team string
datatype comment = Comment string
datatype issue = Issue string
datatype workflow_state = WorkflowState string
datatype issue_priority_value = IssuePriorityValue int string

text \<open>The argument object of \<open>issueCreate\<close>; the numbers are only passed through.\<close>

record issue_input =
  title :: string
  teamId :: string
  description :: "string option"
  assigneeId :: "string option"
  stateId :: "string option"
  estimate :: "int option"
  priority :: "int option"

text \<open>
  A payload of a mutation (\<open>IssuePayload\<close>, \<open>CommentPayload\<close>): the flag \<open>success\<close>
  and the identifier through which the created entity can be resolved later.
\<close>

record payload =
  success :: bool
  entity :: "string option"

text \<open>The object returned by \<open>getContextIssueWithDetails\<close>.\<close>

record detail_bundle =
  issue :: issue
  assignee :: "user option"
  creator :: "user option"
  team :: "team option"
  subscribers :: "user list option"
  comments :: "comment list option"

text \<open>
  Every call that leaves the module is recorded, in order. The remote calls are those
  made on the client handle or on an entity obtained from it.
\<close>

datatype event =
    GetSession bool
  | NewLinearClient credentials
  | ShowQuickPick
  | ShowInputBox
  | ShowErrorMessage string
  | ShowInformationMessage string
  | SecretGet
  | SecretStore string
  | SecretDelete
  | StorageGet
  | StorageUpdate string
  | Viewer client
  | AssignedIssues user
  | Teams user
  | IssueFetch client string
  | CommentCreate client string string
  | WorkflowStates client
  | IssueUpdate client string string
  | IssuePriorityValues client
  | TeamMembers team
  | IssueCreate client issue_input
  | IssueAssignee issue
  | IssueCreator issue
  | IssueTeam issue
  | IssueSubscribers issue
  | IssueComments issue nat
  | ConsoleError string
  | ConsoleLog string

fun remote_call :: "event \<Rightarrow> bool" where
  "remote_call (Viewer _) = True"
| "remote_call (AssignedIssues _) = True"
| "remote_call (Teams _) = True"
| "remote_call (IssueFetch _ _) = True"
| "remote_call (CommentCreate _ _ _) = True"
| "remote_call (WorkflowStates _) = True"
| "remote_call (IssueUpdate _ _ _) = True"
| "remote_call (IssuePriorityValues _) = True"
| "remote_call (TeamMembers _) = True"
| "remote_call (IssueCreate _ _) = True"
| "remote_call (IssueAssignee _) = True"
| "remote_call (IssueCreator _) = True"
| "remote_call (IssueTeam _) = True"
| "remote_call (IssueSubscribers _) = True"
| "remote_call (IssueComments _ _) = True"
| "remote_call _ = False"

text \<open>
  The module state: whether the two store handles have been assigned (they are declared
  without a value and assigned by \<open>init\<close>), the client handle, the two persisted values
  (the secret \<open>apiKey\<close> and the workspace value \<open>linearContextIssueId\<close>) and the record
  of calls.
\<close>

record state =
  secretStorage_bound :: bool
  storage_bound :: bool
  client :: "client option"
  apiKey :: "string option"
  linearContextIssueId :: "string option"
  trace :: "event list"

text \<open>
  The environment of one operation. No operation asks the same question twice, so each
  answer is a function of the arguments of the call. A store whose flag \<open>..._throws\<close>
  is set raises and leaves its content as it was.
\<close>

record env =
  auth_getSession :: "bool \<Rightarrow> error + session option"
  new_LinearClient_throws :: "credentials \<Rightarrow> bool"
  window_showQuickPick :: "error + string option"
  window_showInputBox :: "error + string option"
  secrets_get_throws :: bool
  secrets_store_throws :: bool
  secrets_delete_throws :: bool
  memento_get_throws :: bool
  memento_update_throws :: bool
  client_viewer :: "client \<Rightarrow> error + user"
  user_assignedIssues :: "user \<Rightarrow> error + issue list"
  user_teams :: "user \<Rightarrow> error + team list"
  client_issue :: "client \<Rightarrow> string \<Rightarrow> error + issue option"
  client_commentCreate :: "client \<Rightarrow> string \<Rightarrow> string \<Rightarrow> error + payload"
  client_workflowStates :: "client \<Rightarrow> error + workflow_state list"
  client_issueUpdate :: "client \<Rightarrow> string \<Rightarrow> string \<Rightarrow> error + payload"
  client_issuePriorityValues :: "client \<Rightarrow> error + issue_priority_value list"
  team_members :: "team \<Rightarrow> error + user list"
  client_issueCreate :: "client \<Rightarrow> issue_input \<Rightarrow> error + payload"
  issue_assignee :: "issue \<Rightarrow> error + user option"
  issue_creator :: "issue \<Rightarrow> error + user option"
  issue_team :: "issue \<Rightarrow> error + team option"
  issue_subscribers :: "issue \<Rightarrow> error + user list option"
  issue_comments :: "issue \<Rightarrow> nat \<Rightarrow> error + comment list option"

subsection \<open>Primitives\<close>

definition log :: "event \<Rightarrow> state \<Rightarrow> state" where
  "log e s = s\<lparr>trace := trace s @ [e]\<rparr>"

text \<open>The calls made between an earlier state and a later one.\<close>

definition new_events :: "state \<Rightarrow> state \<Rightarrow> event list" where
  "new_events s s' = drop (length (trace s)) (trace s')"

text \<open>
  The calls that can put a prompt before the user: the pick, the input box, and a session
  request with \<open>createIfNone: true\<close>.
\<close>

fun user_prompt :: "event \<Rightarrow> bool" where
  "user_prompt ShowQuickPick = True"
| "user_prompt ShowInputBox = True"
| "user_prompt (GetSession createIfNone) = createIfNone"
| "user_prompt _ = False"

text \<open>JavaScript truthiness of a value of type \<open>string | undefined\<close>.\<close>

fun truthy :: "string option \<Rightarrow> bool" where
  "truthy None = False"
| "truthy (Some v) = (v \<noteq> [])"

text \<open>\<open>new LinearClient(options)\<close>.\<close>

definition new_LinearClient :: "env \<Rightarrow> credentials \<Rightarrow> state \<Rightarrow> (error + client) \<times> state" where
  "new_LinearClient E c s =
     (if new_LinearClient_throws E c then (Inl (Error ''LinearClient''), log (NewLinearClient c) s)
      else (Inr (LinearClient c), log (NewLinearClient c) s))"

text \<open>
  The secret store behind \<open>_secretStorage\<close>. A method call on the unassigned variable
  raises a \<open>TypeError\<close> before any call is made.
\<close>

definition secretStorage_get :: "env \<Rightarrow> state \<Rightarrow> (error + string option) \<times> state" where
  "secretStorage_get E s =
     (if \<not> secretStorage_bound s then (Inl TypeError, s)
      else if secrets_get_throws E then (Inl (Error ''secrets.get''), log SecretGet s)
      else (Inr (apiKey s), log SecretGet s))"

definition secretStorage_store :: "env \<Rightarrow> string \<Rightarrow> state \<Rightarrow> (error + unit) \<times> state" where
  "secretStorage_store E v s =
     (if \<not> secretStorage_bound s then (Inl TypeError, s)
      else if secrets_store_throws E then (Inl (Error ''secrets.store''), log (SecretStore v) s)
      else (Inr (), log (SecretStore v) (s\<lparr>apiKey := Some v\<rparr>)))"

definition secretStorage_delete :: "env \<Rightarrow> state \<Rightarrow> (error + unit) \<times> state" where
  "secretStorage_delete E s =
     (if \<not> secretStorage_bound s then (Inl TypeError, s)
      else if secrets_delete_throws E then (Inl (Error ''secrets.delete''), log SecretDelete s)
      else (Inr (), log SecretDelete (s\<lparr>apiKey := None\<rparr>)))"

text \<open>The workspace store behind \<open>_storage\<close>, read and written at \<open>linearContextIssueId\<close>.\<close>

definition storage_get :: "env \<Rightarrow> state \<Rightarrow> (error + string option) \<times> state" where
  "storage_get E s =
     (if \<not> storage_bound s then (Inl TypeError, s)
      else if memento_get_throws E then (Inl (Error ''workspaceState.get''), log StorageGet s)
      else (Inr (linearContextIssueId s), log StorageGet s))"

definition storage_update :: "env \<Rightarrow> string \<Rightarrow> state \<Rightarrow> (error + unit) \<times> state" where
  "storage_update E v s =
     (if \<not> storage_bound s then (Inl TypeError, s)
      else if memento_update_throws E then (Inl (Error ''workspaceState.update''), log (StorageUpdate v) s)
      else (Inr (), log (StorageUpdate v) (s\<lparr>linearContextIssueId := Some v\<rparr>)))"

subsection \<open>Session operations\<close>

text \<open>
  \<open>init\<close> (the same in both variants; the second applies \<open>?.toString()\<close> to the key
  read from the secret store, which maps a string to itself and \<open>undefined\<close> to
  \<open>undefined\<close>).
\<close>

definition init :: "env \<Rightarrow> state \<Rightarrow> bool \<times> state" where
  "init E s0 =
     (let s1 = s0\<lparr>secretStorage_bound := True, storage_bound := True\<rparr>;
          s2 = log (GetSession False) s1
      in case auth_getSession E False of
           Inl err \<Rightarrow> (False, log (ConsoleError ''Error initializing Linear client'') s2)
         | Inr (Some sess) \<Rightarrow>
             (case new_LinearClient E (AccessToken (accessToken sess)) s2 of
                (Inl err, s3) \<Rightarrow> (False, log (ConsoleError ''Error initializing Linear client'') s3)
              | (Inr c, s3) \<Rightarrow> (True, s3\<lparr>client := Some c\<rparr>))
         | Inr None \<Rightarrow>
             (case secretStorage_get E s2 of
                (Inl err, s3) \<Rightarrow> (False, log (ConsoleError ''Error initializing Linear client'') s3)
              | (Inr k, s3) \<Rightarrow>
                  if truthy k then
                    (case new_LinearClient E (ApiKey (the k)) s3 of
                       (Inl err, s4) \<Rightarrow>
                         (False, log (ConsoleError ''Error initializing Linear client'') s4)
                     | (Inr c, s4) \<Rightarrow> (True, s4\<lparr>client := Some c\<rparr>))
                  else (False, s3)))"

text \<open>
  \<open>connect\<close> of the first variant: a pick between OAuth and a manually entered API key.
  The inner \<open>try\<close> of the API-key path is \<open>connect_test_key\<close>; its \<open>catch\<close> shows the
  message about an invalid key.
\<close>

definition connect_test_key :: "env \<Rightarrow> string \<Rightarrow> state \<Rightarrow> (error + bool) \<times> state" where
  "connect_test_key E k s =
     (case new_LinearClient E (ApiKey k) s of
        (Inl err, s1) \<Rightarrow> (Inl err, s1)
      | (Inr testClient, s1) \<Rightarrow>
          (case client_viewer E testClient of
             Inl err \<Rightarrow> (Inl err, log (Viewer testClient) s1)
           | Inr me \<Rightarrow>
               (case secretStorage_store E k (log (Viewer testClient) s1) of
                  (Inl err, s2) \<Rightarrow> (Inl err, s2)
                | (Inr u, s2) \<Rightarrow> (Inr True, s2\<lparr>client := Some testClient\<rparr>))))"

definition connect :: "env \<Rightarrow> state \<Rightarrow> bool \<times> state" where
  "connect E s =
     (let s1 = log ShowQuickPick s
      in case window_showQuickPick E of
           Inl err \<Rightarrow> (False, log (ConsoleError ''Error authenticating with Linear'') s1)
         | Inr None \<Rightarrow> (False, s1)
         | Inr (Some label) \<Rightarrow>
             if label = ''Sign in with OAuth'' then
               (let s2 = log (GetSession True) s1
                in case auth_getSession E True of
                     Inl err \<Rightarrow> (False, log (ConsoleError ''Error authenticating with Linear'') s2)
                   | Inr None \<Rightarrow>
                       (False, log (ShowErrorMessage ''Failed to authenticate with Linear'') s2)
                   | Inr (Some sess) \<Rightarrow>
                       (case new_LinearClient E (AccessToken (accessToken sess)) s2 of
                          (Inl err, s3) \<Rightarrow>
                            (False, log (ConsoleError ''Error authenticating with Linear'') s3)
                        | (Inr c, s3) \<Rightarrow> (True, s3\<lparr>client := Some c\<rparr>)))
             else
               (let s2 = log ShowInputBox s1
                in case window_showInputBox E of
                     Inl err \<Rightarrow> (False, log (ConsoleError ''Error authenticating with Linear'') s2)
                   | Inr k \<Rightarrow>
                       if \<not> truthy k then (False, s2)
                       else
                         (case connect_test_key E (the k) s2 of
                            (Inl err, s3) \<Rightarrow>
                              (False, log (ShowErrorMessage
                                 ''Invalid API key. Please check and try again.'') s3)
                          | (Inr b, s3) \<Rightarrow> (b, s3))))"

text \<open>\<open>connect\<close> of the second variant: OAuth only.\<close>

definition connect2 :: "env \<Rightarrow> state \<Rightarrow> bool \<times> state" where
  "connect2 E s =
     (let s1 = log (GetSession True) s
      in case auth_getSession E True of
           Inl err \<Rightarrow> (False, log (ConsoleError ''Error authenticating with Linear'') s1)
         | Inr None \<Rightarrow> (False, log (ShowErrorMessage ''Failed to authenticate with Linear'') s1)
         | Inr (Some sess) \<Rightarrow>
             (case new_LinearClient E (AccessToken (accessToken sess)) s1 of
                (Inl err, s2) \<Rightarrow> (False, log (ConsoleError ''Error authenticating with Linear'') s2)
              | (Inr c, s2) \<Rightarrow> (True, s2\<lparr>client := Some c\<rparr>)))"

text \<open>
  \<open>disconnect\<close> of the first variant. The deletion of the key is the first statement of
  the outer \<open>try\<close>; the session lookup has a \<open>try/catch\<close> of its own; the assignment
  \<open>_client = null\<close> follows both.
\<close>

definition disconnect :: "env \<Rightarrow> state \<Rightarrow> bool \<times> state" where
  "disconnect E s =
     (case secretStorage_delete E s of
        (Inl err, s1) \<Rightarrow> (False, log (ConsoleError ''Error signing out from Linear'') s1)
      | (Inr u, s1) \<Rightarrow>
          (let s2 = log (GetSession False) s1;
               s3 = (case auth_getSession E False of
                       Inl err \<Rightarrow> log (ConsoleLog ''Error checking authentication session:'') s2
                     | Inr None \<Rightarrow> s2
                     | Inr (Some sess) \<Rightarrow>
                         log (ShowInformationMessage
                           ''To completely remove OAuth authorization, go to File > Preferences > Settings > Accounts > Linear to manage your sessions.'') s2)
           in (True, s3\<lparr>client := None\<rparr>)))"

text \<open>\<open>disconnect\<close> of the second variant.\<close>

definition disconnect2 :: "env \<Rightarrow> state \<Rightarrow> bool \<times> state" where
  "disconnect2 E s =
     (case secretStorage_delete E s of
        (Inl err, s1) \<Rightarrow> (False, log (ConsoleError ''Error signing out from Linear'') s1)
      | (Inr u, s1) \<Rightarrow> (True, s1\<lparr>client := None\<rparr>))"

subsection \<open>Read operations\<close>

definition getMyIssues :: "env \<Rightarrow> state \<Rightarrow> issue list option \<times> state" where
  "getMyIssues E s =
     (case client s of
        None \<Rightarrow> (None, log (ConsoleError ''No initialized Linear client found'') s)
      | Some c \<Rightarrow>
          (let s1 = log (Viewer c) s
           in case client_viewer E c of
                Inl err \<Rightarrow> (None, log (ConsoleError ''Error getting my issues'') s1)
              | Inr me \<Rightarrow>
                  (let s2 = log (AssignedIssues me) s1
                   in case user_assignedIssues E me of
                        Inl err \<Rightarrow> (None, log (ConsoleError ''Error getting my issues'') s2)
                      | Inr nodes \<Rightarrow> (Some nodes, s2))))"

definition getMyTeams :: "env \<Rightarrow> state \<Rightarrow> team list option \<times> state" where
  "getMyTeams E s =
     (case client s of
        None \<Rightarrow> (None, log (ConsoleError ''No initialized Linear client found'') s)
      | Some c \<Rightarrow>
          (let s1 = log (Viewer c) s
           in case client_viewer E c of
                Inl err \<Rightarrow> (None, log (ConsoleError ''Error getting my teams'') s1)
              | Inr me \<Rightarrow>
                  (let s2 = log (Teams me) s1
                   in case user_teams E me of
                        Inl err \<Rightarrow> (None, log (ConsoleError ''Error getting my teams'') s2)
                      | Inr nodes \<Rightarrow> (Some nodes, s2))))"

text \<open>\<open>issue || null\<close>: a missing issue and \<open>null\<close> are both \<open>None\<close>.\<close>

definition getIssueByIdentifier :: "env \<Rightarrow> string \<Rightarrow> state \<Rightarrow> issue option \<times> state" where
  "getIssueByIdentifier E identifier s =
     (case client s of
        None \<Rightarrow> (None, log (ConsoleError ''No initialized Linear client found'') s)
      | Some c \<Rightarrow>
          (let s1 = log (IssueFetch c identifier) s
           in case client_issue E c identifier of
                Inl err \<Rightarrow> (None, log (ConsoleError ''Error getting issue by identifier'') s1)
              | Inr iss \<Rightarrow> (iss, s1)))"

definition getWorkflowStates :: "env \<Rightarrow> state \<Rightarrow> workflow_state list option \<times> state" where
  "getWorkflowStates E s =
     (case client s of
        None \<Rightarrow> (None, log (ConsoleError ''No initialized Linear client found'') s)
      | Some c \<Rightarrow>
          (let s1 = log (WorkflowStates c) s
           in case client_workflowStates E c of
                Inl err \<Rightarrow> (None, log (ConsoleError ''Error getting workflow states'') s1)
              | Inr nodes \<Rightarrow> (Some nodes, s1)))"

definition getAvailablePriorities ::
  "env \<Rightarrow> state \<Rightarrow> issue_priority_value list option \<times> state" where
  "getAvailablePriorities E s =
     (case client s of
        None \<Rightarrow> (None, log (ConsoleError ''No initialized Linear client found'') s)
      | Some c \<Rightarrow>
          (let s1 = log (IssuePriorityValues c) s
           in case client_issuePriorityValues E c of
                Inl err \<Rightarrow> (None, log (ConsoleError ''Error getting priorities'') s1)
              | Inr availablePriorities \<Rightarrow> (Some availablePriorities, s1)))"

definition getTeamMembers :: "env \<Rightarrow> team \<Rightarrow> state \<Rightarrow> user list option \<times> state" where
  "getTeamMembers E t s =
     (case client s of
        None \<Rightarrow> (None, log (ConsoleError ''No initialized Linear client found'') s)
      | Some c \<Rightarrow>
          (let s1 = log (TeamMembers t) s
           in case team_members E t of
                Inl err \<Rightarrow> (None, log (ConsoleError ''Error getting team members'') s1)
              | Inr nodes \<Rightarrow> (Some nodes, s1)))"

subsection \<open>The context issue\<close>

text \<open>The parameter \<open>issueId?: string\<close> is a string or \<open>undefined\<close>.\<close>

definition setContextIssueId :: "env \<Rightarrow> string option \<Rightarrow> state \<Rightarrow> bool \<times> state" where
  "setContextIssueId E issueId s =
     (if \<not> truthy issueId then (False, s)
      else
        (case storage_update E (the issueId) s of
           (Inl err, s1) \<Rightarrow> (False, log (ConsoleError ''Error setting context issue'') s1)
         | (Inr u, s1) \<Rightarrow> (True, s1)))"

definition addContextIssueComment :: "env \<Rightarrow> string \<Rightarrow> state \<Rightarrow> bool \<times> state" where
  "addContextIssueComment E body s =
     (case client s of
        None \<Rightarrow> (False, s)
      | Some c \<Rightarrow>
          if body = [] then (False, s)
          else
            (case storage_get E s of
               (Inl err, s1) \<Rightarrow> (False, log (ConsoleError ''Error commenting context issue'') s1)
             | (Inr issueId, s1) \<Rightarrow>
                 if \<not> truthy issueId then (False, s1)
                 else
                   (let s2 = log (CommentCreate c (the issueId) body) s1
                    in case client_commentCreate E c (the issueId) body of
                         Inl err \<Rightarrow>
                           (False, log (ConsoleError ''Error commenting context issue'') s2)
                       | Inr commentPayload \<Rightarrow>
                           if \<not> success commentPayload then (False, s2) else (True, s2))))"

definition setContextIssueStatus :: "env \<Rightarrow> string \<Rightarrow> state \<Rightarrow> bool \<times> state" where
  "setContextIssueStatus E status s =
     (case client s of
        None \<Rightarrow> (False, s)
      | Some c \<Rightarrow>
          if status = [] then (False, s)
          else
            (case storage_get E s of
               (Inl err, s1) \<Rightarrow>
                 (False, log (ConsoleError ''Error setting context issue status'') s1)
             | (Inr issueId, s1) \<Rightarrow>
                 if \<not> truthy issueId then (False, s1)
                 else
                   (let s2 = log (IssueUpdate c (the issueId) status) s1
                    in case client_issueUpdate E c (the issueId) status of
                         Inl err \<Rightarrow>
                           (False, log (ConsoleError ''Error setting context issue status'') s2)
                       | Inr statusPayload \<Rightarrow>
                           if \<not> success statusPayload then (False, s2) else (True, s2))))"

definition createIssue ::
  "env \<Rightarrow> string \<Rightarrow> string \<Rightarrow> string option \<Rightarrow> string option \<Rightarrow> string option \<Rightarrow>
   int option \<Rightarrow> int option \<Rightarrow> state \<Rightarrow> payload option \<times> state" where
  "createIssue E ttl tid descr asg st est prio s =
     (case client s of
        None \<Rightarrow> (None, s)
      | Some c \<Rightarrow>
          (let input = \<lparr>title = ttl, teamId = tid, description = descr, assigneeId = asg,
                        stateId = st, estimate = est, priority = prio\<rparr>;
               s1 = log (IssueCreate c input) s
           in case client_issueCreate E c input of
                Inl err \<Rightarrow> (None, log (ConsoleError ''Error creating issue'') s1)
              | Inr issuePayload \<Rightarrow>
                  if \<not> success issuePayload then (None, s1) else (Some issuePayload, s1)))"

definition getContextIssue :: "env \<Rightarrow> state \<Rightarrow> issue option \<times> state" where
  "getContextIssue E s =
     (case client s of
        None \<Rightarrow> (None, s)
      | Some c \<Rightarrow>
          (case storage_get E s of
             (Inl err, s1) \<Rightarrow> (None, log (ConsoleError ''Error retrieving context issue'') s1)
           | (Inr issueId, s1) \<Rightarrow>
               if \<not> truthy issueId then (None, s1)
               else
                 (let s2 = log (IssueFetch c (the issueId)) s1
                  in case client_issue E c (the issueId) of
                       Inl err \<Rightarrow> (None, log (ConsoleError ''Error retrieving context issue'') s2)
                     | Inr iss \<Rightarrow> (iss, s2))))"

text \<open>
  \<open>Promise.all\<close> over the five related values of an issue: the three getters and the two
  method calls are evaluated in the order of the array, and the join raises when one of
  them raises.
\<close>

definition promise_all_details ::
  "env \<Rightarrow> issue \<Rightarrow> state \<Rightarrow>
   (error + user option \<times> user option \<times> team option \<times> user list option \<times> comment list option)
   \<times> state" where
  "promise_all_details E iss s =
     (let s' = log (IssueComments iss 100) (log (IssueSubscribers iss) (log (IssueTeam iss)
                 (log (IssueCreator iss) (log (IssueAssignee iss) s))))
      in (case issue_assignee E iss of
            Inl err \<Rightarrow> Inl err
          | Inr a \<Rightarrow>
              (case issue_creator E iss of
                 Inl err \<Rightarrow> Inl err
               | Inr cr \<Rightarrow>
                   (case issue_team E iss of
                      Inl err \<Rightarrow> Inl err
                    | Inr t \<Rightarrow>
                        (case issue_subscribers E iss of
                           Inl err \<Rightarrow> Inl err
                         | Inr subscribersConnection \<Rightarrow>
                             (case issue_comments E iss 100 of
                                Inl err \<Rightarrow> Inl err
                              | Inr commentsConnection \<Rightarrow>
                                  Inr (a, cr, t, subscribersConnection, commentsConnection))))),
          s'))"

text \<open>\<open>connection?.nodes || []\<close> of the first variant.\<close>

fun nodes_or_empty :: "'a list option \<Rightarrow> 'a list" where
  "nodes_or_empty None = []"
| "nodes_or_empty (Some nodes) = nodes"

text \<open>
  \<open>getContextIssueWithDetails\<close> of the first variant. It reads the store without
  \<open>await\<close> and applies \<open>?.toString()\<close>, inside the \<open>try\<close> block; a related value that
  is \<open>null\<close> becomes \<open>undefined\<close> (\<open>assignee || undefined\<close>), both of which are
  \<open>None\<close> here.
\<close>

definition getContextIssueWithDetails :: "env \<Rightarrow> state \<Rightarrow> detail_bundle option \<times> state" where
  "getContextIssueWithDetails E s =
     (case client s of
        None \<Rightarrow> (None, s)
      | Some c \<Rightarrow>
          (case storage_get E s of
             (Inl err, s1) \<Rightarrow>
               (None, log (ConsoleError ''Error retrieving context issue with details'') s1)
           | (Inr issueId, s1) \<Rightarrow>
               if \<not> truthy issueId then (None, s1)
               else
                 (let s2 = log (IssueFetch c (the issueId)) s1
                  in case client_issue E c (the issueId) of
                       Inl err \<Rightarrow>
                         (None, log (ConsoleError ''Error retrieving context issue with details'') s2)
                     | Inr None \<Rightarrow> (None, s2)
                     | Inr (Some iss) \<Rightarrow>
                         (case promise_all_details E iss s2 of
                            (Inl err, s3) \<Rightarrow>
                              (None, log (ConsoleError
                                 ''Error retrieving context issue with details'') s3)
                          | (Inr (a, cr, t, subscribersConnection, commentsConnection), s3) \<Rightarrow>
                              (Some \<lparr>issue = iss, assignee = a, creator = cr, team = t,
                                     subscribers = Some (nodes_or_empty subscribersConnection),
                                     comments = Some (nodes_or_empty commentsConnection)\<rparr>,
                               s3)))))"

text \<open>
  \<open>getContextIssueWithDetails\<close> of the second variant: the nodes of a missing connection
  stay \<open>undefined\<close>.
\<close>

definition getContextIssueWithDetails2 :: "env \<Rightarrow> state \<Rightarrow> detail_bundle option \<times> state" where
  "getContextIssueWithDetails2 E s =
     (case client s of
        None \<Rightarrow> (None, s)
      | Some c \<Rightarrow>
          (case storage_get E s of
             (Inl err, s1) \<Rightarrow>
               (None, log (ConsoleError ''Error retrieving context issue with details'') s1)
           | (Inr issueId, s1) \<Rightarrow>
               if \<not> truthy issueId then (None, s1)
               else
                 (let s2 = log (IssueFetch c (the issueId)) s1
                  in case client_issue E c (the issueId) of
                       Inl err \<Rightarrow>
                         (None, log (ConsoleError ''Error retrieving context issue with details'') s2)
                     | Inr None \<Rightarrow> (None, s2)
                     | Inr (Some iss) \<Rightarrow>
                         (case promise_all_details E iss s2 of
                            (Inl err, s3) \<Rightarrow>
                              (None, log (ConsoleError
                                 ''Error retrieving context issue with details'') s3)
                          | (Inr (a, cr, t, subscribersConnection, commentsConnection), s3) \<Rightarrow>
                              (Some \<lparr>issue = iss, assignee = a, creator = cr, team = t,
                                     subscribers = subscribersConnection,
                                     comments = commentsConnection\<rparr>,
                               s3)))))"

subsection \<open>Concrete environments and states\<close>

definition quiet_env :: env where
  "quiet_env =
     \<lparr>auth_getSession = (\<lambda>c. Inr None),
      new_LinearClient_throws = (\<lambda>c. False),
      window_showQuickPick = Inr None,
      window_showInputBox = Inr None,
      secrets_get_throws = False,
      secrets_store_throws = False,
      secrets_delete_throws = False,
      memento_get_throws = False,
      memento_update_throws = False,
      client_viewer = (\<lambda>c. Inr (User ''me'')),
      user_assignedIssues = (\<lambda>u. Inr []),
      user_teams = (\<lambda>u. Inr []),
      client_issue = (\<lambda>c i. Inr (Some (Issue i))),
      client_commentCreate = (\<lambda>c i b. Inr \<lparr>success = True, entity = Some ''c1''\<rparr>),
      client_workflowStates = (\<lambda>c. Inr []),
      client_issueUpdate = (\<lambda>c i st. Inr \<lparr>success = True, entity = Some i\<rparr>),
      client_issuePriorityValues = (\<lambda>c. Inr []),
      team_members = (\<lambda>t. Inr []),
      client_issueCreate = (\<lambda>c i. Inr \<lparr>success = True, entity = Some ''ISS-2''\<rparr>),
      issue_assignee = (\<lambda>i. Inr None),
      issue_creator = (\<lambda>i. Inr (Some (User ''creator''))),
      issue_team = (\<lambda>i. Inr (Some (Team ''team-1''))),
      issue_subscribers = (\<lambda>i. Inr (Some [])),
      issue_comments = (\<lambda>i n. Inr (Some [Comment ''c1'', Comment ''c2'']))\<rparr>"

definition module_start :: state where
  "module_start =
     \<lparr>secretStorage_bound = False, storage_bound = False, client = None,
      apiKey = None, linearContextIssueId = None, trace = []\<rparr>"

definition ready :: state where
  "ready = module_start\<lparr>secretStorage_bound := True, storage_bound := True\<rparr>"

definition connected :: state where
  "connected = ready\<lparr>client := Some (LinearClient (ApiKey ''lin_api_1'')),
                     apiKey := Some ''lin_api_1''\<rparr>"

definition delete_fails_env :: env where
  "delete_fails_env = quiet_env\<lparr>secrets_delete_throws := True\<rparr>"

definition get_fails_env :: env where
  "get_fails_env = quiet_env\<lparr>memento_get_throws := True\<rparr>"

definition oauth_env :: env where
  "oauth_env = quiet_env\<lparr>auth_getSession := (\<lambda>c. Inr (Some (Session ''tok'')))\<rparr>"

definition comments_fail_env :: env where
  "comments_fail_env = quiet_env\<lparr>issue_comments := (\<lambda>i n. Inl (Error ''network''))\<rparr>"

definition create_fails_env :: env where
  "create_fails_env =
     quiet_env\<lparr>client_issueCreate := (\<lambda>c i. Inr \<lparr>success = False, entity = None\<rparr>)\<rparr>"

definition stored_key :: state where
  "stored_key = module_start\<lparr>apiKey := Some ''lin_api_1''\<rparr>"

definition context_set :: state where
  "context_set = connected\<lparr>linearContextIssueId := Some ''ABC-42''\<rparr>"

section \<open>Properties\<close>

subsection \<open>disconnect\<close>

text \<open>
  Claim C1 says that \<open>disconnect\<close> clears the client handle even when the deletion of the
  persisted API key fails. In both variants the deletion is the first statement of the
  \<open>try\<close> block and the assignment \<open>_client = null\<close> comes after it, so a raising
  deletion skips the assignment: in a connected state whose secret store raises on
  \<open>delete\<close>, \<open>disconnect\<close> returns false and the client handle is still there.
\<close>

theorem disconnect_delete_raises_counterexample:
  "fst (disconnect delete_fails_env connected) = False
   \<and> client (snd (disconnect delete_fails_env connected)) = Some (LinearClient (ApiKey ''lin_api_1''))
   \<and> fst (disconnect2 delete_fails_env connected) = False
   \<and> client (snd (disconnect2 delete_fails_env connected)) = Some (LinearClient (ApiKey ''lin_api_1''))"
  by (simp add: disconnect_def disconnect2_def secretStorage_delete_def log_def quiet_env_def module_start_def ready_def connected_def delete_fails_env_def)

text \<open>
  Claim C1, amended: when the deletion of the persisted API key does not raise,
  \<open>disconnect\<close> clears the key and the client handle and returns true (in the first
  variant whatever the session lookup does); when the deletion raises, it returns false
  and the client handle is as it was before the call.
\<close>

theorem disconnect_clears_unless_delete_raises:
  "(secretStorage_bound s \<and> \<not> secrets_delete_throws E \<longrightarrow>
      fst (disconnect E s) = True \<and> client (snd (disconnect E s)) = None
      \<and> apiKey (snd (disconnect E s)) = None
      \<and> fst (disconnect2 E s) = True \<and> client (snd (disconnect2 E s)) = None
      \<and> apiKey (snd (disconnect2 E s)) = None)
   \<and> (\<not> secretStorage_bound s \<or> secrets_delete_throws E \<longrightarrow>
      fst (disconnect E s) = False \<and> client (snd (disconnect E s)) = client s
      \<and> fst (disconnect2 E s) = False \<and> client (snd (disconnect2 E s)) = client s)"
  by (auto simp: disconnect_def disconnect2_def secretStorage_delete_def log_def Let_def split: sum.splits option.splits)

theorem disconnect_clears_unless_delete_raises_witness:
  "(secretStorage_bound connected \<and> \<not> secrets_delete_throws quiet_env)
   \<and> fst (disconnect quiet_env connected) = True
   \<and> client (snd (disconnect quiet_env connected)) = None
   \<and> apiKey (snd (disconnect quiet_env connected)) = None
   \<and> fst (disconnect2 quiet_env connected) = True
   \<and> client (snd (disconnect2 quiet_env connected)) = None
   \<and> apiKey (snd (disconnect2 quiet_env connected)) = None
   \<and> secrets_delete_throws delete_fails_env
   \<and> fst (disconnect delete_fails_env connected) = False
   \<and> client (snd (disconnect delete_fails_env connected)) = client connected
   \<and> fst (disconnect2 delete_fails_env connected) = False
   \<and> client (snd (disconnect2 delete_fails_env connected)) = client connected"
proof -
  have ok: "secretStorage_bound connected \<and> \<not> secrets_delete_throws quiet_env"
    by (simp add: quiet_env_def module_start_def ready_def connected_def delete_fails_env_def)
  have bad: "secrets_delete_throws delete_fails_env"
    by (simp add: quiet_env_def module_start_def ready_def connected_def delete_fails_env_def)
  show ?thesis
    using ok bad
      disconnect_clears_unless_delete_raises [where s = connected and E = quiet_env]
      disconnect_clears_unless_delete_raises [where s = connected and E = delete_fails_env]
    by simp
qed

subsection \<open>connect\<close>

text \<open>
  Claim C2 says that after a cancelled or failed \<open>connect\<close> the module holds no client
  handle, whatever it held before. No failing path of \<open>connect\<close> assigns \<open>_client\<close>:
  in a connected state, a dismissed pick (first variant) or a missing session (second
  variant) returns false and the earlier handle is still there.
\<close>

theorem connect_cancel_counterexample:
  "fst (connect quiet_env connected) = False
   \<and> client (snd (connect quiet_env connected)) = Some (LinearClient (ApiKey ''lin_api_1''))
   \<and> fst (connect2 quiet_env connected) = False
   \<and> client (snd (connect2 quiet_env connected)) = Some (LinearClient (ApiKey ''lin_api_1''))"
  by (simp add: connect_def connect2_def new_LinearClient_def secretStorage_store_def log_def quiet_env_def module_start_def ready_def connected_def)

lemma connect_test_key_client:
  "connect_test_key E k s = (Inl e, s') \<Longrightarrow> client s' = client s"
  by (auto simp: connect_test_key_def new_LinearClient_def secretStorage_store_def log_def split: sum.splits if_splits)

lemma connect_test_key_True:
  "connect_test_key E k s = (Inr b, s') \<Longrightarrow> b"
  by (auto simp: connect_test_key_def new_LinearClient_def secretStorage_store_def log_def split: sum.splits if_splits)

text \<open>
  Claim C2, amended: every run of \<open>connect\<close> that returns false (a dismissed prompt, a
  missing session, a failed validation, a raised exception) leaves the client handle as
  it was before the call; so the module holds no handle afterwards exactly when it held
  none before.
\<close>

theorem connect_failure_keeps_client:
  "(fst (connect E s) = False \<longrightarrow> client (snd (connect E s)) = client s)
   \<and> (fst (connect2 E s) = False \<longrightarrow> client (snd (connect2 E s)) = client s)"
  by (auto simp: connect_def connect2_def new_LinearClient_def secretStorage_store_def log_def Let_def
      split: sum.splits option.splits if_splits prod.splits
      dest: connect_test_key_client connect_test_key_True)

theorem connect_failure_keeps_client_witness:
  "fst (connect quiet_env ready) = False
   \<and> client (snd (connect quiet_env ready)) = client ready
   \<and> fst (connect2 quiet_env ready) = False
   \<and> client (snd (connect2 quiet_env ready)) = client ready
   \<and> client ready = None"
proof -
  have f1: "fst (connect quiet_env ready) = False"
    by (simp add: connect_def new_LinearClient_def secretStorage_store_def log_def quiet_env_def module_start_def ready_def connected_def)
  have f2: "fst (connect2 quiet_env ready) = False"
    by (simp add: connect2_def new_LinearClient_def secretStorage_store_def log_def quiet_env_def module_start_def ready_def connected_def)
  have n: "client ready = None"
    by (simp add: quiet_env_def module_start_def ready_def connected_def)
  show ?thesis
    using f1 f2 n connect_failure_keeps_client [where E = quiet_env and s = ready]
    by simp
qed

subsection \<open>init\<close>

lemma init_is_silent:
  "filter user_prompt (new_events s (snd (init E s))) = []"
  by (auto simp: init_def new_LinearClient_def secretStorage_get_def log_def new_events_def
      Let_def split: sum.splits option.splits)

lemma init_asks_session_first:
  "take 1 (new_events s (snd (init E s))) = [GetSession False]"
  by (auto simp: init_def new_LinearClient_def secretStorage_get_def log_def new_events_def
      Let_def split: sum.splits option.splits)

lemma init_outcomes:
  "(auth_getSession E False = Inr (Some sess)
      \<and> \<not> new_LinearClient_throws E (AccessToken (accessToken sess)) \<longrightarrow>
      fst (init E s) = True
      \<and> client (snd (init E s)) = Some (LinearClient (AccessToken (accessToken sess)))
      \<and> SecretGet \<notin> set (new_events s (snd (init E s))))
   \<and> (auth_getSession E False = Inr None \<and> \<not> secrets_get_throws E \<and> apiKey s = Some k
      \<and> k \<noteq> [] \<and> \<not> new_LinearClient_throws E (ApiKey k) \<longrightarrow>
      fst (init E s) = True \<and> client (snd (init E s)) = Some (LinearClient (ApiKey k)))
   \<and> (SecretGet \<in> set (new_events s (snd (init E s))) \<longrightarrow> auth_getSession E False = Inr None)
   \<and> (fst (init E s) \<longrightarrow> client (snd (init E s)) \<noteq> None)
   \<and> (client s = None \<longrightarrow> (fst (init E s) \<longleftrightarrow> client (snd (init E s)) \<noteq> None))
   \<and> ((\<exists>e. auth_getSession E False = Inl e)
       \<or> (\<exists>se. auth_getSession E False = Inr (Some se)
              \<and> new_LinearClient_throws E (AccessToken (accessToken se)))
       \<or> (auth_getSession E False = Inr None
           \<and> (secrets_get_throws E \<or> \<not> truthy (apiKey s)
               \<or> new_LinearClient_throws E (ApiKey (the (apiKey s))))) \<longrightarrow>
      fst (init E s) = False \<and> client (snd (init E s)) = client s)"
  by (auto simp: init_def new_LinearClient_def secretStorage_get_def log_def new_events_def
      Let_def split: sum.splits option.splits)

text \<open>
  Claim C6: \<open>init\<close> restores a session silently, with a fixed precedence. Its first call
  is the lookup of an existing OAuth session (\<open>createIfNone: false\<close>), and no run of it
  makes a call that can prompt the user (no pick, no input box, no session request with
  \<open>createIfNone: true\<close>). An existing OAuth session gives the client handle and the
  secret store is not read; the persisted API key is read only when the session lookup
  answered that there is none; a non-empty key then gives the client handle. A true
  result means a client handle is held, and from the start state of the module (no
  handle) the result is true exactly when a handle is held afterwards. Every internal
  failure (the session lookup raises, the store raises, the client cannot be built, no
  key) ends in the result false, with the handle as it was: nothing is raised to the
  caller.
\<close>

theorem init_restores_session:
  "(auth_getSession E False = Inr (Some sess)
      \<and> \<not> new_LinearClient_throws E (AccessToken (accessToken sess)) \<longrightarrow>
      fst (init E s) = True
      \<and> client (snd (init E s)) = Some (LinearClient (AccessToken (accessToken sess)))
      \<and> SecretGet \<notin> set (new_events s (snd (init E s))))
   \<and> (auth_getSession E False = Inr None \<and> \<not> secrets_get_throws E \<and> apiKey s = Some k
      \<and> k \<noteq> [] \<and> \<not> new_LinearClient_throws E (ApiKey k) \<longrightarrow>
      fst (init E s) = True \<and> client (snd (init E s)) = Some (LinearClient (ApiKey k)))
   \<and> (SecretGet \<in> set (new_events s (snd (init E s))) \<longrightarrow> auth_getSession E False = Inr None)
   \<and> (fst (init E s) \<longrightarrow> client (snd (init E s)) \<noteq> None)
   \<and> (client s = None \<longrightarrow> (fst (init E s) \<longleftrightarrow> client (snd (init E s)) \<noteq> None))
   \<and> ((\<exists>e. auth_getSession E False = Inl e)
       \<or> (\<exists>se. auth_getSession E False = Inr (Some se)
              \<and> new_LinearClient_throws E (AccessToken (accessToken se)))
       \<or> (auth_getSession E False = Inr None
           \<and> (secrets_get_throws E \<or> \<not> truthy (apiKey s)
               \<or> new_LinearClient_throws E (ApiKey (the (apiKey s))))) \<longrightarrow>
      fst (init E s) = False \<and> client (snd (init E s)) = client s)
   \<and> filter user_prompt (new_events s (snd (init E s))) = []
   \<and> take 1 (new_events s (snd (init E s))) = [GetSession False]"
proof -
  note o = init_outcomes [of E sess s k]
  show ?thesis
    apply (intro conjI)
           apply (rule o [THEN conjunct1])
          apply (rule o [THEN conjunct2, THEN conjunct1])
         apply (rule o [THEN conjunct2, THEN conjunct2, THEN conjunct1])
        apply (rule o [THEN conjunct2, THEN conjunct2, THEN conjunct2, THEN conjunct1])
       apply (rule o [THEN conjunct2, THEN conjunct2, THEN conjunct2, THEN conjunct2,
          THEN conjunct1])
      apply (rule o [THEN conjunct2, THEN conjunct2, THEN conjunct2, THEN conjunct2,
          THEN conjunct2])
     apply (rule init_is_silent)
    apply (rule init_asks_session_first)
    done
qed

theorem init_restores_session_witness:
  "(fst (init oauth_env stored_key) = True
    \<and> client (snd (init oauth_env stored_key)) = Some (LinearClient (AccessToken ''tok''))
    \<and> SecretGet \<notin> set (new_events stored_key (snd (init oauth_env stored_key))))
   \<and> (fst (init quiet_env stored_key) = True
    \<and> client (snd (init quiet_env stored_key)) = Some (LinearClient (ApiKey ''lin_api_1'')))
   \<and> (fst (init quiet_env module_start) = False
    \<and> client (snd (init quiet_env module_start)) = None)
   \<and> filter user_prompt (new_events stored_key (snd (init oauth_env stored_key))) = []
   \<and> take 1 (new_events stored_key (snd (init quiet_env stored_key))) = [GetSession False]"
proof -
  have a: "auth_getSession oauth_env False = Inr (Some (Session ''tok''))
      \<and> \<not> new_LinearClient_throws oauth_env (AccessToken (accessToken (Session ''tok'')))"
    by (simp add: quiet_env_def oauth_env_def)
  have b: "auth_getSession quiet_env False = Inr None \<and> \<not> secrets_get_throws quiet_env
      \<and> apiKey stored_key = Some ''lin_api_1'' \<and> ''lin_api_1'' \<noteq> []
      \<and> \<not> new_LinearClient_throws quiet_env (ApiKey ''lin_api_1'')"
    by (simp add: quiet_env_def module_start_def stored_key_def)
  have c: "auth_getSession quiet_env False = Inr None \<and> \<not> truthy (apiKey module_start)"
    by (simp add: quiet_env_def module_start_def)
  have n: "client module_start = None"
    by (simp add: module_start_def)
  have t: "accessToken (Session ''tok'') = ''tok''"
    by simp
  have p1: "fst (init oauth_env stored_key) = True
    \<and> client (snd (init oauth_env stored_key)) = Some (LinearClient (AccessToken ''tok''))
    \<and> SecretGet \<notin> set (new_events stored_key (snd (init oauth_env stored_key)))"
    using a init_restores_session [where E = oauth_env and s = stored_key
        and sess = "Session ''tok''", THEN conjunct1]
    unfolding t by blast
  have p2: "fst (init quiet_env stored_key) = True
    \<and> client (snd (init quiet_env stored_key)) = Some (LinearClient (ApiKey ''lin_api_1''))"
    using b init_restores_session [where E = quiet_env and s = stored_key
        and k = "''lin_api_1''", THEN conjunct2, THEN conjunct1]
    by blast
  have p3: "fst (init quiet_env module_start) = False
    \<and> client (snd (init quiet_env module_start)) = None"
    using c n init_restores_session [where E = quiet_env and s = module_start,
        THEN conjunct2, THEN conjunct2, THEN conjunct2, THEN conjunct2, THEN conjunct2,
        THEN conjunct1]
    by metis
  have p4: "filter user_prompt (new_events stored_key (snd (init oauth_env stored_key))) = []"
    by (rule init_restores_session [where E = oauth_env and s = stored_key,
        THEN conjunct2, THEN conjunct2, THEN conjunct2, THEN conjunct2, THEN conjunct2,
        THEN conjunct2, THEN conjunct1])
  have p5: "take 1 (new_events stored_key (snd (init quiet_env stored_key)))
      = [GetSession False]"
    by (rule init_restores_session [where E = quiet_env and s = stored_key,
        THEN conjunct2, THEN conjunct2, THEN conjunct2, THEN conjunct2, THEN conjunct2,
        THEN conjunct2, THEN conjunct2])
  show ?thesis
    using p1 p2 p3 p4 p5 by blast
qed

subsection \<open>Operations that need a session\<close>

text \<open>
  Claim C3: with no client handle, each operation that needs a session returns its
  absent value (\<open>null\<close>, \<open>undefined\<close> or false) and makes no call on the remote client.
  The two variants of \<open>getContextIssueWithDetails\<close> are both covered.
\<close>

theorem no_session_no_remote_call:
  assumes "client s = None"
  shows "(fst (getMyIssues E s) = None
          \<and> filter remote_call (new_events s (snd (getMyIssues E s))) = [])
       \<and> (fst (getMyTeams E s) = None
          \<and> filter remote_call (new_events s (snd (getMyTeams E s))) = [])
       \<and> (fst (getIssueByIdentifier E ident s) = None
          \<and> filter remote_call (new_events s (snd (getIssueByIdentifier E ident s))) = [])
       \<and> (fst (getWorkflowStates E s) = None
          \<and> filter remote_call (new_events s (snd (getWorkflowStates E s))) = [])
       \<and> (fst (getAvailablePriorities E s) = None
          \<and> filter remote_call (new_events s (snd (getAvailablePriorities E s))) = [])
       \<and> (fst (addContextIssueComment E body s) = False
          \<and> filter remote_call (new_events s (snd (addContextIssueComment E body s))) = [])
       \<and> (fst (setContextIssueStatus E status s) = False
          \<and> filter remote_call (new_events s (snd (setContextIssueStatus E status s))) = [])
       \<and> (fst (createIssue E ttl tid descr asg st est prio s) = None
          \<and> filter remote_call
               (new_events s (snd (createIssue E ttl tid descr asg st est prio s))) = [])
       \<and> (fst (getContextIssue E s) = None
          \<and> filter remote_call (new_events s (snd (getContextIssue E s))) = [])
       \<and> (fst (getContextIssueWithDetails E s) = None
          \<and> filter remote_call (new_events s (snd (getContextIssueWithDetails E s))) = [])
       \<and> (fst (getContextIssueWithDetails2 E s) = None
          \<and> filter remote_call (new_events s (snd (getContextIssueWithDetails2 E s))) = [])"
  using assms
  by (simp add: getMyIssues_def getMyTeams_def getIssueByIdentifier_def getWorkflowStates_def
      getAvailablePriorities_def addContextIssueComment_def setContextIssueStatus_def
      createIssue_def getContextIssue_def getContextIssueWithDetails_def
      getContextIssueWithDetails2_def log_def new_events_def)

theorem no_session_no_remote_call_witness:
  "client ready = None
   \<and> fst (getMyIssues quiet_env ready) = None
   \<and> filter remote_call (new_events ready (snd (getMyIssues quiet_env ready))) = []
   \<and> fst (getIssueByIdentifier quiet_env ''ISS-1'' ready) = None
   \<and> fst (addContextIssueComment quiet_env ''hello'' ready) = False
   \<and> fst (createIssue quiet_env ''Fix bug'' ''team-1'' None None None None None ready) = None
   \<and> filter remote_call (new_events ready
        (snd (createIssue quiet_env ''Fix bug'' ''team-1'' None None None None None ready))) = []
   \<and> fst (getContextIssueWithDetails quiet_env ready) = None"
proof -
  have h: "client ready = None"
    by (simp add: quiet_env_def module_start_def ready_def)
  show ?thesis
    using h no_session_no_remote_call [OF h, where E = quiet_env and ident = "''ISS-1''"
        and body = "''hello''" and ttl = "''Fix bug''" and tid = "''team-1''" and descr = None
        and asg = None and st = None and est = None and prio = None]
    by simp
qed

subsection \<open>The context issue with its details\<close>

lemma promise_all_details_Inl:
  "(\<exists>e. issue_assignee E iss = Inl e) \<or> (\<exists>e. issue_creator E iss = Inl e)
   \<or> (\<exists>e. issue_team E iss = Inl e) \<or> (\<exists>e. issue_subscribers E iss = Inl e)
   \<or> (\<exists>e. issue_comments E iss 100 = Inl e)
   \<Longrightarrow> \<exists>e. fst (promise_all_details E iss s) = Inl e"
  by (auto simp: promise_all_details_def split: sum.splits)

lemma promise_all_details_Inr:
  "issue_assignee E iss = Inr a \<Longrightarrow> issue_creator E iss = Inr cr \<Longrightarrow> issue_team E iss = Inr t
   \<Longrightarrow> issue_subscribers E iss = Inr sc \<Longrightarrow> issue_comments E iss 100 = Inr cc
   \<Longrightarrow> fst (promise_all_details E iss s) = Inr (a, cr, t, sc, cc)"
  by (simp add: promise_all_details_def)

text \<open>
  Claim C4: \<open>getContextIssueWithDetails\<close> is all or nothing. With a session, a set
  context issue and a successful issue fetch: when one of the five dependent fetches
  (assignee, creator, team, subscribers, comments) raises, the result is absent in both
  variants; when all five answer, the result is the bundle built from the answers, in
  which a relation that is missing (the answer \<open>None\<close>, for instance no assignee) is an
  absent field.
\<close>

theorem details_all_or_nothing:
  assumes "client s = Some c" and "storage_bound s" and "\<not> memento_get_throws E"
    and "linearContextIssueId s = Some i" and "i \<noteq> []"
    and "client_issue E c i = Inr (Some iss)"
  shows "((\<exists>e. issue_assignee E iss = Inl e) \<or> (\<exists>e. issue_creator E iss = Inl e)
          \<or> (\<exists>e. issue_team E iss = Inl e) \<or> (\<exists>e. issue_subscribers E iss = Inl e)
          \<or> (\<exists>e. issue_comments E iss 100 = Inl e)
          \<longrightarrow> fst (getContextIssueWithDetails E s) = None
              \<and> fst (getContextIssueWithDetails2 E s) = None)
       \<and> (issue_assignee E iss = Inr a \<and> issue_creator E iss = Inr cr
          \<and> issue_team E iss = Inr t \<and> issue_subscribers E iss = Inr sc
          \<and> issue_comments E iss 100 = Inr cc
          \<longrightarrow> fst (getContextIssueWithDetails E s) =
                Some \<lparr>issue = iss, assignee = a, creator = cr, team = t,
                      subscribers = Some (nodes_or_empty sc),
                      comments = Some (nodes_or_empty cc)\<rparr>
              \<and> fst (getContextIssueWithDetails2 E s) =
                Some \<lparr>issue = iss, assignee = a, creator = cr, team = t,
                      subscribers = sc, comments = cc\<rparr>)"
proof (intro conjI impI)
  assume f: "(\<exists>e. issue_assignee E iss = Inl e) \<or> (\<exists>e. issue_creator E iss = Inl e)
          \<or> (\<exists>e. issue_team E iss = Inl e) \<or> (\<exists>e. issue_subscribers E iss = Inl e)
          \<or> (\<exists>e. issue_comments E iss 100 = Inl e)"
  from promise_all_details_Inl [OF f]
  obtain e where "fst (promise_all_details E iss (log (IssueFetch c i) (log StorageGet s))) = Inl e"
    by blast
  then obtain s3 where
    s3: "promise_all_details E iss (log (IssueFetch c i) (log StorageGet s)) = (Inl e, s3)"
    by (metis prod.collapse)
  show "fst (getContextIssueWithDetails E s) = None"
    using assms s3 by (simp add: getContextIssueWithDetails_def storage_get_def)
  show "fst (getContextIssueWithDetails2 E s) = None"
    using assms s3 by (simp add: getContextIssueWithDetails2_def storage_get_def)
next
  assume g: "issue_assignee E iss = Inr a \<and> issue_creator E iss = Inr cr
          \<and> issue_team E iss = Inr t \<and> issue_subscribers E iss = Inr sc
          \<and> issue_comments E iss 100 = Inr cc"
  then have "fst (promise_all_details E iss (log (IssueFetch c i) (log StorageGet s)))
      = Inr (a, cr, t, sc, cc)"
    by (simp add: promise_all_details_Inr)
  then obtain s3 where
    s3: "promise_all_details E iss (log (IssueFetch c i) (log StorageGet s))
      = (Inr (a, cr, t, sc, cc), s3)"
    by (metis prod.collapse)
  show "fst (getContextIssueWithDetails E s) =
                Some \<lparr>issue = iss, assignee = a, creator = cr, team = t,
                      subscribers = Some (nodes_or_empty sc),
                      comments = Some (nodes_or_empty cc)\<rparr>"
    using assms s3 by (simp add: getContextIssueWithDetails_def storage_get_def)
  show "fst (getContextIssueWithDetails2 E s) =
                Some \<lparr>issue = iss, assignee = a, creator = cr, team = t,
                      subscribers = sc, comments = cc\<rparr>"
    using assms s3 by (simp add: getContextIssueWithDetails2_def storage_get_def)
qed

theorem details_all_or_nothing_witness:
  "fst (getContextIssueWithDetails comments_fail_env context_set) = None
   \<and> fst (getContextIssueWithDetails2 comments_fail_env context_set) = None
   \<and> fst (getContextIssueWithDetails quiet_env context_set) =
        Some \<lparr>issue = Issue ''ABC-42'', assignee = None, creator = Some (User ''creator''),
              team = Some (Team ''team-1''), subscribers = Some [],
              comments = Some [Comment ''c1'', Comment ''c2'']\<rparr>
   \<and> fst (getContextIssueWithDetails2 quiet_env context_set) =
        Some \<lparr>issue = Issue ''ABC-42'', assignee = None, creator = Some (User ''creator''),
              team = Some (Team ''team-1''), subscribers = Some [],
              comments = Some [Comment ''c1'', Comment ''c2'']\<rparr>"
proof -
  let ?c = "LinearClient (ApiKey ''lin_api_1'')"
  have h1: "client context_set = Some ?c" and h2: "storage_bound context_set"
    and h4: "linearContextIssueId context_set = Some ''ABC-42''" and h5: "''ABC-42'' \<noteq> []"
    by (simp_all add: quiet_env_def module_start_def ready_def connected_def context_set_def comments_fail_env_def)
  have q3: "\<not> memento_get_throws quiet_env"
    and q6: "client_issue quiet_env ?c ''ABC-42'' = Inr (Some (Issue ''ABC-42''))"
    by (simp_all add: quiet_env_def module_start_def ready_def connected_def context_set_def comments_fail_env_def)
  have f3: "\<not> memento_get_throws comments_fail_env"
    and f6: "client_issue comments_fail_env ?c ''ABC-42'' = Inr (Some (Issue ''ABC-42''))"
    by (simp_all add: quiet_env_def module_start_def ready_def connected_def context_set_def comments_fail_env_def)
  have bad: "\<exists>e. issue_comments comments_fail_env (Issue ''ABC-42'') 100 = Inl e"
    by (simp add: quiet_env_def module_start_def ready_def connected_def context_set_def comments_fail_env_def)
  have good: "issue_assignee quiet_env (Issue ''ABC-42'') = Inr None
      \<and> issue_creator quiet_env (Issue ''ABC-42'') = Inr (Some (User ''creator''))
      \<and> issue_team quiet_env (Issue ''ABC-42'') = Inr (Some (Team ''team-1''))
      \<and> issue_subscribers quiet_env (Issue ''ABC-42'') = Inr (Some [])
      \<and> issue_comments quiet_env (Issue ''ABC-42'') 100
          = Inr (Some [Comment ''c1'', Comment ''c2''])"
    by (simp add: quiet_env_def module_start_def ready_def connected_def context_set_def comments_fail_env_def)
  have p1: "fst (getContextIssueWithDetails comments_fail_env context_set) = None
      \<and> fst (getContextIssueWithDetails2 comments_fail_env context_set) = None"
    using bad details_all_or_nothing [OF h1 h2 f3 h4 h5 f6, THEN conjunct1]
    by blast
  have p2: "fst (getContextIssueWithDetails quiet_env context_set) =
        Some \<lparr>issue = Issue ''ABC-42'', assignee = None, creator = Some (User ''creator''),
              team = Some (Team ''team-1''),
              subscribers = Some (nodes_or_empty (Some [])),
              comments = Some (nodes_or_empty (Some [Comment ''c1'', Comment ''c2'']))\<rparr>
   \<and> fst (getContextIssueWithDetails2 quiet_env context_set) =
        Some \<lparr>issue = Issue ''ABC-42'', assignee = None, creator = Some (User ''creator''),
              team = Some (Team ''team-1''), subscribers = Some [],
              comments = Some [Comment ''c1'', Comment ''c2'']\<rparr>"
    using good details_all_or_nothing [OF h1 h2 q3 h4 h5 q6, THEN conjunct2]
    by blast
  show ?thesis
    using p1 p2 by simp
qed

subsection \<open>Setting the context issue\<close>

text \<open>
  Claim C5: \<open>setContextIssueId\<close> with \<open>undefined\<close> or with the empty string returns
  false and leaves the whole state as it was: the persisted id is unchanged and no call
  on the store is made.
\<close>

theorem setContextIssueId_empty:
  "setContextIssueId E None s = (False, s) \<and> setContextIssueId E (Some []) s = (False, s)"
  by (simp add: setContextIssueId_def)

theorem setContextIssueId_empty_witness:
  "setContextIssueId quiet_env None context_set = (False, context_set)
   \<and> setContextIssueId quiet_env (Some []) context_set = (False, context_set)
   \<and> linearContextIssueId context_set = Some ''ABC-42''"
proof -
  have k: "linearContextIssueId context_set = Some ''ABC-42''"
    by (simp add: quiet_env_def module_start_def ready_def connected_def context_set_def)
  show ?thesis
    using k setContextIssueId_empty [where E = quiet_env and s = context_set] by blast
qed

text \<open>
  Claim C10: \<open>setContextIssueId\<close> needs no session. For a non-empty id and a store
  update that does not raise (the store handle is assigned and \<open>update\<close> succeeds), the
  id is persisted and the result is true, whatever the client handle is, in particular
  when there is none; the client handle is not touched.
\<close>

theorem setContextIssueId_without_session:
  "i \<noteq> [] \<Longrightarrow> storage_bound s \<Longrightarrow> \<not> memento_update_throws E \<Longrightarrow>
   fst (setContextIssueId E (Some i) s) = True
   \<and> linearContextIssueId (snd (setContextIssueId E (Some i) s)) = Some i
   \<and> client (snd (setContextIssueId E (Some i) s)) = client s"
  by (simp add: setContextIssueId_def storage_update_def log_def)

theorem setContextIssueId_without_session_witness:
  "client ready = None
   \<and> fst (setContextIssueId quiet_env (Some ''ISS-1'') ready) = True
   \<and> linearContextIssueId (snd (setContextIssueId quiet_env (Some ''ISS-1'') ready))
       = Some ''ISS-1''
   \<and> client (snd (setContextIssueId quiet_env (Some ''ISS-1'') ready)) = None"
proof -
  have h1: "''ISS-1'' \<noteq> []"
    by simp
  have h2: "storage_bound ready"
    by (simp add: quiet_env_def module_start_def ready_def)
  have h3: "\<not> memento_update_throws quiet_env"
    by (simp add: quiet_env_def module_start_def ready_def)
  have n: "client ready = None"
    by (simp add: quiet_env_def module_start_def ready_def)
  show ?thesis
    using n setContextIssueId_without_session [OF h1 h2 h3] by simp
qed

text \<open>
  Claim C9 says that after a successful \<open>setContextIssueId(id)\<close> the next
  \<open>getContextIssue()\<close> attempts the fetch of that id once. \<open>getContextIssue\<close> returns
  at once when there is no client handle, and \<open>setContextIssueId\<close> succeeds without
  one: after \<open>init\<close> found no session, setting \<open>ISS-1\<close> succeeds and the following
  \<open>getContextIssue\<close> returns absent and makes no remote call. With a client handle,
  the read of the store is inside the \<open>try\<close> block: when it raises, the \<open>catch\<close> logs
  and the function returns absent, again with no remote call.
\<close>

theorem set_then_get_no_fetch_counterexample:
  "fst (setContextIssueId quiet_env (Some ''ISS-1'') ready) = True
   \<and> fst (getContextIssue quiet_env
            (snd (setContextIssueId quiet_env (Some ''ISS-1'') ready))) = None
   \<and> filter remote_call
       (new_events (snd (setContextIssueId quiet_env (Some ''ISS-1'') ready))
          (snd (getContextIssue quiet_env
                 (snd (setContextIssueId quiet_env (Some ''ISS-1'') ready)))))
     = []
   \<and> fst (setContextIssueId quiet_env (Some ''ISS-1'') connected) = True
   \<and> fst (getContextIssue get_fails_env
            (snd (setContextIssueId quiet_env (Some ''ISS-1'') connected))) = None
   \<and> filter remote_call
       (new_events (snd (setContextIssueId quiet_env (Some ''ISS-1'') connected))
          (snd (getContextIssue get_fails_env
                 (snd (setContextIssueId quiet_env (Some ''ISS-1'') connected)))))
     = []"
  by (simp add: setContextIssueId_def getContextIssue_def storage_update_def storage_get_def
      log_def new_events_def quiet_env_def module_start_def ready_def connected_def
      get_fails_env_def)

text \<open>
  Claim C9, amended: for every non-empty id, after \<open>setContextIssueId(id)\<close> succeeded,
  an immediately following \<open>getContextIssue()\<close> attempts the remote issue fetch with
  exactly that id, exactly once (it is its only remote call, made on the held client, and
  its answer is the result, absent when the fetch raises), provided a client handle is
  established and the read of the store does not raise; with no client handle, or when
  that read raises, it returns absent without attempting the fetch.
\<close>

theorem set_then_get_fetches_once:
  assumes "i \<noteq> []" and "fst (setContextIssueId E1 (Some i) s) = True"
  shows "(client s = Some c \<and> \<not> memento_get_throws E2 \<longrightarrow>
            filter remote_call
              (new_events (snd (setContextIssueId E1 (Some i) s))
                 (snd (getContextIssue E2 (snd (setContextIssueId E1 (Some i) s)))))
            = [IssueFetch c i]
          \<and> fst (getContextIssue E2 (snd (setContextIssueId E1 (Some i) s)))
            = (case client_issue E2 c i of Inl err \<Rightarrow> None | Inr iss \<Rightarrow> iss))
       \<and> (client s = None \<or> memento_get_throws E2 \<longrightarrow>
            fst (getContextIssue E2 (snd (setContextIssueId E1 (Some i) s))) = None
          \<and> filter remote_call
              (new_events (snd (setContextIssueId E1 (Some i) s))
                 (snd (getContextIssue E2 (snd (setContextIssueId E1 (Some i) s)))))
            = [])"
proof (intro conjI impI)
  assume h: "client s = Some c \<and> \<not> memento_get_throws E2"
  with assms show "filter remote_call
              (new_events (snd (setContextIssueId E1 (Some i) s))
                 (snd (getContextIssue E2 (snd (setContextIssueId E1 (Some i) s)))))
            = [IssueFetch c i]"
    by (auto simp: setContextIssueId_def getContextIssue_def storage_update_def
        storage_get_def log_def new_events_def Let_def split: sum.splits if_splits)
  from h assms show "fst (getContextIssue E2 (snd (setContextIssueId E1 (Some i) s)))
            = (case client_issue E2 c i of Inl err \<Rightarrow> None | Inr iss \<Rightarrow> iss)"
    by (auto simp: setContextIssueId_def getContextIssue_def storage_update_def
        storage_get_def log_def Let_def split: sum.splits if_splits)
next
  assume h: "client s = None \<or> memento_get_throws E2"
  with assms show "fst (getContextIssue E2 (snd (setContextIssueId E1 (Some i) s))) = None"
    by (auto simp: setContextIssueId_def getContextIssue_def storage_update_def
        storage_get_def log_def Let_def split: sum.splits if_splits option.splits)
  from h assms show "filter remote_call
              (new_events (snd (setContextIssueId E1 (Some i) s))
                 (snd (getContextIssue E2 (snd (setContextIssueId E1 (Some i) s)))))
            = []"
    by (auto simp: setContextIssueId_def getContextIssue_def storage_update_def
        storage_get_def log_def new_events_def Let_def
        split: sum.splits if_splits option.splits)
qed

theorem set_then_get_fetches_once_witness:
  "(fst (setContextIssueId quiet_env (Some ''ISS-1'') connected) = True
    \<and> filter remote_call
        (new_events (snd (setContextIssueId quiet_env (Some ''ISS-1'') connected))
           (snd (getContextIssue quiet_env
                  (snd (setContextIssueId quiet_env (Some ''ISS-1'') connected)))))
      = [IssueFetch (LinearClient (ApiKey ''lin_api_1'')) ''ISS-1'']
    \<and> fst (getContextIssue quiet_env
             (snd (setContextIssueId quiet_env (Some ''ISS-1'') connected)))
      = Some (Issue ''ISS-1''))
   \<and> (fst (setContextIssueId quiet_env (Some ''ISS-1'') ready) = True
    \<and> client ready = None
    \<and> fst (getContextIssue quiet_env
             (snd (setContextIssueId quiet_env (Some ''ISS-1'') ready))) = None
    \<and> filter remote_call
        (new_events (snd (setContextIssueId quiet_env (Some ''ISS-1'') ready))
           (snd (getContextIssue quiet_env
                  (snd (setContextIssueId quiet_env (Some ''ISS-1'') ready)))))
      = [])
   \<and> (memento_get_throws get_fails_env
    \<and> fst (getContextIssue get_fails_env
             (snd (setContextIssueId quiet_env (Some ''ISS-1'') connected))) = None
    \<and> filter remote_call
        (new_events (snd (setContextIssueId quiet_env (Some ''ISS-1'') connected))
           (snd (getContextIssue get_fails_env
                  (snd (setContextIssueId quiet_env (Some ''ISS-1'') connected)))))
      = [])"
proof -
  let ?c = "LinearClient (ApiKey ''lin_api_1'')"
  have h1: "''ISS-1'' \<noteq> []"
    by simp
  have h2: "fst (setContextIssueId quiet_env (Some ''ISS-1'') connected) = True"
    by (simp add: setContextIssueId_def storage_update_def log_def
        quiet_env_def module_start_def ready_def connected_def)
  have h2': "fst (setContextIssueId quiet_env (Some ''ISS-1'') ready) = True"
    by (simp add: setContextIssueId_def storage_update_def log_def
        quiet_env_def module_start_def ready_def)
  have h3: "client connected = Some ?c \<and> \<not> memento_get_throws quiet_env"
    by (simp add: quiet_env_def module_start_def ready_def connected_def)
  have n: "client ready = None"
    by (simp add: module_start_def ready_def)
  have g: "memento_get_throws get_fails_env"
    by (simp add: quiet_env_def get_fails_env_def)
  have r: "(case client_issue quiet_env ?c ''ISS-1'' of Inl err \<Rightarrow> None | Inr iss \<Rightarrow> iss)
      = Some (Issue ''ISS-1'')"
    by (simp add: quiet_env_def)
  have p1: "filter remote_call
        (new_events (snd (setContextIssueId quiet_env (Some ''ISS-1'') connected))
           (snd (getContextIssue quiet_env
                  (snd (setContextIssueId quiet_env (Some ''ISS-1'') connected)))))
      = [IssueFetch ?c ''ISS-1'']
    \<and> fst (getContextIssue quiet_env
             (snd (setContextIssueId quiet_env (Some ''ISS-1'') connected)))
      = Some (Issue ''ISS-1'')"
    using h3 set_then_get_fetches_once [OF h1 h2, where c = ?c and ?E2.0 = quiet_env,
        THEN conjunct1]
    unfolding r by blast
  have p2: "fst (getContextIssue quiet_env
             (snd (setContextIssueId quiet_env (Some ''ISS-1'') ready))) = None
    \<and> filter remote_call
        (new_events (snd (setContextIssueId quiet_env (Some ''ISS-1'') ready))
           (snd (getContextIssue quiet_env
                  (snd (setContextIssueId quiet_env (Some ''ISS-1'') ready)))))
      = []"
    using n set_then_get_fetches_once [OF h1 h2', where ?E2.0 = quiet_env, THEN conjunct2]
    by blast
  have p3: "fst (getContextIssue get_fails_env
             (snd (setContextIssueId quiet_env (Some ''ISS-1'') connected))) = None
    \<and> filter remote_call
        (new_events (snd (setContextIssueId quiet_env (Some ''ISS-1'') connected))
           (snd (getContextIssue get_fails_env
                  (snd (setContextIssueId quiet_env (Some ''ISS-1'') connected)))))
      = []"
    using g set_then_get_fetches_once [OF h1 h2, where ?E2.0 = get_fails_env, THEN conjunct2]
    by blast
  show ?thesis
    using h2 h2' n g p1 p2 p3 by blast
qed

subsection \<open>Commenting and creating\<close>

text \<open>
  Claim C7: \<open>addContextIssueComment\<close> checks the session, then the text, then the
  context issue id. Without a session, or with an empty text, it returns false and the
  state is as before: the store has not even been read. When the read of the store
  raises or gives no id, it returns false and no remote call has been made. When all
  three hold, the only remote call is one \<open>commentCreate\<close> for that issue and text, and
  the result is the flag \<open>success\<close> of the answer (false when the call raises).
\<close>

theorem addContextIssueComment_order:
  "(client s = None \<longrightarrow> addContextIssueComment E body s = (False, s))
   \<and> (body = [] \<longrightarrow> addContextIssueComment E body s = (False, s))
   \<and> (\<not> storage_bound s \<or> memento_get_throws E \<or> \<not> truthy (linearContextIssueId s) \<longrightarrow>
        fst (addContextIssueComment E body s) = False
        \<and> filter remote_call (new_events s (snd (addContextIssueComment E body s))) = [])
   \<and> (client s = Some c \<and> body \<noteq> [] \<and> storage_bound s \<and> \<not> memento_get_throws E
        \<and> linearContextIssueId s = Some i \<and> i \<noteq> [] \<longrightarrow>
        filter remote_call (new_events s (snd (addContextIssueComment E body s)))
          = [CommentCreate c i body]
        \<and> (\<forall>p. client_commentCreate E c i body = Inr p \<longrightarrow>
               fst (addContextIssueComment E body s) = success p)
        \<and> (\<forall>e. client_commentCreate E c i body = Inl e \<longrightarrow>
               fst (addContextIssueComment E body s) = False))"
proof (intro conjI impI)
  show "addContextIssueComment E body s = (False, s)" if "client s = None"
    using that by (simp add: addContextIssueComment_def)
  show "addContextIssueComment E body s = (False, s)" if "body = []"
    using that by (simp add: addContextIssueComment_def split: option.splits)
next
  assume h: "\<not> storage_bound s \<or> memento_get_throws E \<or> \<not> truthy (linearContextIssueId s)"
  then show "fst (addContextIssueComment E body s) = False"
    by (auto simp: addContextIssueComment_def storage_get_def split: option.splits)
  from h show "filter remote_call (new_events s (snd (addContextIssueComment E body s))) = []"
    by (auto simp: addContextIssueComment_def storage_get_def log_def new_events_def
        split: option.splits)
next
  assume h: "client s = Some c \<and> body \<noteq> [] \<and> storage_bound s \<and> \<not> memento_get_throws E
        \<and> linearContextIssueId s = Some i \<and> i \<noteq> []"
  then show "filter remote_call (new_events s (snd (addContextIssueComment E body s)))
          = [CommentCreate c i body]"
    by (simp add: addContextIssueComment_def storage_get_def log_def new_events_def Let_def
        split: sum.splits)
  from h show "\<forall>p. client_commentCreate E c i body = Inr p \<longrightarrow>
               fst (addContextIssueComment E body s) = success p"
    by (simp add: addContextIssueComment_def storage_get_def Let_def)
  from h show "\<forall>e. client_commentCreate E c i body = Inl e \<longrightarrow>
               fst (addContextIssueComment E body s) = False"
    by (simp add: addContextIssueComment_def storage_get_def Let_def)
qed

theorem addContextIssueComment_order_witness:
  "addContextIssueComment quiet_env ''hello'' ready = (False, ready)
   \<and> addContextIssueComment quiet_env [] context_set = (False, context_set)
   \<and> fst (addContextIssueComment quiet_env ''hello'' connected) = False
   \<and> filter remote_call
       (new_events connected (snd (addContextIssueComment quiet_env ''hello'' connected))) = []
   \<and> filter remote_call
       (new_events context_set (snd (addContextIssueComment quiet_env ''hello'' context_set)))
     = [CommentCreate (LinearClient (ApiKey ''lin_api_1'')) ''ABC-42'' ''hello'']
   \<and> fst (addContextIssueComment quiet_env ''hello'' context_set) = True"
proof -
  let ?c = "LinearClient (ApiKey ''lin_api_1'')"
  have a: "client ready = None"
    by (simp add: quiet_env_def module_start_def ready_def connected_def context_set_def)
  have b: "\<not> truthy (linearContextIssueId connected)"
    by (simp add: quiet_env_def module_start_def ready_def connected_def context_set_def)
  have d: "client context_set = Some ?c \<and> ''hello'' \<noteq> [] \<and> storage_bound context_set
      \<and> \<not> memento_get_throws quiet_env \<and> linearContextIssueId context_set = Some ''ABC-42''
      \<and> ''ABC-42'' \<noteq> []"
    by (simp add: quiet_env_def module_start_def ready_def connected_def context_set_def)
  have r: "client_commentCreate quiet_env ?c ''ABC-42'' ''hello''
      = Inr \<lparr>success = True, entity = Some ''c1''\<rparr>"
    by (simp add: quiet_env_def module_start_def ready_def connected_def context_set_def)
  have p1: "addContextIssueComment quiet_env ''hello'' ready = (False, ready)"
    using a addContextIssueComment_order [where E = quiet_env and s = ready
        and body = "''hello''", THEN conjunct1]
    by blast
  have p2: "addContextIssueComment quiet_env [] context_set = (False, context_set)"
    using addContextIssueComment_order [where E = quiet_env and s = context_set
        and body = "[]", THEN conjunct2, THEN conjunct1]
    by blast
  have p3: "fst (addContextIssueComment quiet_env ''hello'' connected) = False
      \<and> filter remote_call
       (new_events connected (snd (addContextIssueComment quiet_env ''hello'' connected))) = []"
    using b addContextIssueComment_order [where E = quiet_env and s = connected
        and body = "''hello''", THEN conjunct2, THEN conjunct2, THEN conjunct1]
    by blast
  have p4: "filter remote_call
       (new_events context_set (snd (addContextIssueComment quiet_env ''hello'' context_set)))
        = [CommentCreate ?c ''ABC-42'' ''hello'']
      \<and> fst (addContextIssueComment quiet_env ''hello'' context_set)
        = success \<lparr>success = True, entity = Some ''c1''\<rparr>"
    using d r addContextIssueComment_order [where E = quiet_env and s = context_set
        and body = "''hello''" and c = ?c and i = "''ABC-42''",
        THEN conjunct2, THEN conjunct2, THEN conjunct2]
    by blast
  show ?thesis
    using p1 p2 p3 p4 by simp
qed

text \<open>
  Claim C8: with a session, \<open>createIssue\<close> makes exactly one remote call, the creation
  with the given fields, and returns a payload exactly when the remote answered with that
  payload and its flag \<open>success\<close> is set; when the remote reports failure or the call
  raises, the result is absent.
\<close>

theorem createIssue_success_iff:
  "client s = Some c \<Longrightarrow>
   filter remote_call (new_events s (snd (createIssue E ttl tid descr asg st est prio s)))
     = [IssueCreate c \<lparr>title = ttl, teamId = tid, description = descr, assigneeId = asg,
                        stateId = st, estimate = est, priority = prio\<rparr>]
   \<and> (\<forall>p. fst (createIssue E ttl tid descr asg st est prio s) = Some p \<longleftrightarrow>
          client_issueCreate E c \<lparr>title = ttl, teamId = tid, description = descr,
            assigneeId = asg, stateId = st, estimate = est, priority = prio\<rparr> = Inr p
          \<and> success p)
   \<and> ((\<exists>e. client_issueCreate E c \<lparr>title = ttl, teamId = tid, description = descr,
            assigneeId = asg, stateId = st, estimate = est, priority = prio\<rparr> = Inl e)
       \<or> (\<exists>p. client_issueCreate E c \<lparr>title = ttl, teamId = tid, description = descr,
            assigneeId = asg, stateId = st, estimate = est, priority = prio\<rparr> = Inr p
            \<and> \<not> success p) \<longrightarrow>
       fst (createIssue E ttl tid descr asg st est prio s) = None)"
  by (auto simp: createIssue_def log_def new_events_def Let_def split: sum.splits)

theorem createIssue_success_iff_witness:
  "fst (createIssue quiet_env ''Fix bug'' ''team-1'' None None None None None connected)
     = Some \<lparr>success = True, entity = Some ''ISS-2''\<rparr>
   \<and> filter remote_call (new_events connected
        (snd (createIssue quiet_env ''Fix bug'' ''team-1'' None None None None None connected)))
     = [IssueCreate (LinearClient (ApiKey ''lin_api_1''))
          \<lparr>title = ''Fix bug'', teamId = ''team-1'', description = None, assigneeId = None,
           stateId = None, estimate = None, priority = None\<rparr>]
   \<and> fst (createIssue create_fails_env ''Fix bug'' ''team-1'' None None None None None connected)
     = None"
proof -
  let ?c = "LinearClient (ApiKey ''lin_api_1'')"
  let ?input = "\<lparr>title = ''Fix bug'', teamId = ''team-1'', description = None,
      assigneeId = None, stateId = None, estimate = None, priority = None\<rparr>"
  let ?p = "\<lparr>success = True, entity = Some ''ISS-2''\<rparr>"
  have h: "client connected = Some ?c"
    by (simp add: quiet_env_def module_start_def ready_def connected_def create_fails_env_def)
  have ok: "client_issueCreate quiet_env ?c ?input = Inr ?p \<and> success ?p"
    by (simp add: quiet_env_def module_start_def ready_def connected_def create_fails_env_def)
  have bad: "\<exists>p. client_issueCreate create_fails_env ?c ?input = Inr p \<and> \<not> success p"
    by (simp add: quiet_env_def module_start_def ready_def connected_def create_fails_env_def)
  note good_run = createIssue_success_iff [OF h, where E = quiet_env and ttl = "''Fix bug''"
      and tid = "''team-1''" and descr = None and asg = None and st = None and est = None
      and prio = None]
  note bad_run = createIssue_success_iff [OF h, where E = create_fails_env
      and ttl = "''Fix bug''" and tid = "''team-1''" and descr = None and asg = None
      and st = None and est = None and prio = None]
  have p1: "fst (createIssue quiet_env ''Fix bug'' ''team-1'' None None None None None connected)
     = Some ?p"
    using ok good_run [THEN conjunct2, THEN conjunct1] by blast
  have p2: "fst (createIssue create_fails_env ''Fix bug'' ''team-1'' None None None None None
      connected) = None"
    using bad bad_run [THEN conjunct2, THEN conjunct2] by blast
  show ?thesis
    using p1 p2 good_run [THEN conjunct1] by blast
qed

end
